theory Spec2Isabelle
  imports Complex_Main
begin

section \<open>Rectal air intervention check: a shallow embedding\<close>

text \<open>
  The development embeds \<^verbatim>\<open>Model.get_fraction_info\<close>, \<^verbatim>\<open>Model.evaluate_rectal_air\<close> and
  \<^verbatim>\<open>Model.plot_prediction\<close> of \<^verbatim>\<open>Rectal_Air_Intervention_Check.py\<close>, together with the
  part of numpy's array semantics these functions rely on.

  Dose values are numpy \<^verbatim>\<open>float64\<close> numbers in the script. They are modelled as exact
  reals: IEEE-754 rounding, NaN and infinities are not part of the model. Python's
  unbounded integers (fraction counts, loop counters, voxel offsets) are \<^typ>\<open>int\<close>.
\<close>

subsection \<open>Errors\<close>

text \<open>
  The script defines no exception of its own and catches none. What can be raised comes
  from indexing (the fraction collection, numpy's integer and boolean indexing) and from
  numpy's broadcasting of operands.
\<close>

datatype error = IndexError | ValueError

subsection \<open>Three-dimensional arrays\<close>

text \<open>
  A dose grid is a dense array indexed \<^verbatim>\<open>[z][y][x]\<close>: its shape \<open>(nz, ny, nx)\<close> and its
  elements in C order, which is the order \<^verbatim>\<open>flatten()\<close> returns. The script adds the
  \<^verbatim>\<open>DoseData\<close> of a fraction to an array of three axes, so \<^verbatim>\<open>DoseData\<close> is taken to have
  three axes as well; arrays of another rank are not modelled. An array is well formed when
  it has as many elements as its shape says.
\<close>

record ndarray =
  shape :: "nat \<times> nat \<times> nat"
  flat :: "real list"

definition size_of :: "nat \<times> nat \<times> nat \<Rightarrow> nat" where
  "size_of s = (case s of (nz, ny, nx) \<Rightarrow> nz * ny * nx)"

definition wf_ndarray :: "ndarray \<Rightarrow> bool" where
  "wf_ndarray a \<longleftrightarrow> length (flat a) = size_of (shape a)"

text \<open>\<^verbatim>\<open>np.zeros([nz, ny, nx])\<close>\<close>

definition zeros :: "nat \<times> nat \<times> nat \<Rightarrow> ndarray" where
  "zeros s = \<lparr>shape = s, flat = replicate (size_of s) 0\<rparr>"

text \<open>
  Broadcasting of one axis: two lengths are compatible when they are equal or one of them
  is 1; the result has the other length.
\<close>

definition broadcast_axis :: "nat \<Rightarrow> nat \<Rightarrow> nat option" where
  "broadcast_axis m n =
     (if m = n then Some m else if m = 1 then Some n else if n = 1 then Some m else None)"

definition broadcast_shapes :: "nat \<times> nat \<times> nat \<Rightarrow> nat \<times> nat \<times> nat \<Rightarrow> (nat \<times> nat \<times> nat) option" where
  "broadcast_shapes s t =
     (case (s, t) of ((sz, sy, sx), (tz, ty, tx)) \<Rightarrow>
        (case (broadcast_axis sz tz, broadcast_axis sy ty, broadcast_axis sx tx) of
           (Some nz, Some ny, Some nx) \<Rightarrow> Some (nz, ny, nx)
         | _ \<Rightarrow> None))"

text \<open>
  An array can be expanded to a target shape when each of its axes has the target's length
  or length 1; an axis of length 1 is repeated. An array that already has the target shape
  is taken as it is.
\<close>

definition expandable :: "nat \<times> nat \<times> nat \<Rightarrow> nat \<times> nat \<times> nat \<Rightarrow> bool" where
  "expandable s t =
     (case (s, t) of ((sz, sy, sx), (tz, ty, tx)) \<Rightarrow>
        (sz = tz \<or> sz = 1) \<and> (sy = ty \<or> sy = 1) \<and> (sx = tx \<or> sx = 1))"

definition expand_flat :: "nat \<times> nat \<times> nat \<Rightarrow> nat \<times> nat \<times> nat \<Rightarrow> real list \<Rightarrow> real list" where
  "expand_flat s t xs =
     (case (s, t) of ((sz, sy, sx), (tz, ty, tx)) \<Rightarrow>
        concat (map (\<lambda>k. concat (map (\<lambda>j. map (\<lambda>i.
            xs ! ((if sz = 1 then 0 else k) * sy * sx + (if sy = 1 then 0 else j) * sx
                  + (if sx = 1 then 0 else i)))
          [0..<tx]) [0..<ty])) [0..<tz]))"

definition broadcast_to :: "nat \<times> nat \<times> nat \<Rightarrow> ndarray \<Rightarrow> ndarray option" where
  "broadcast_to t a =
     (if shape a = t then Some a
      else if expandable (shape a) t then Some \<lparr>shape = t, flat = expand_flat (shape a) t (flat a)\<rparr>
      else None)"

text \<open>
  \<^verbatim>\<open>a += b\<close> on arrays: \<open>b\<close> is broadcast to the shape of \<open>a\<close>, which keeps its shape;
  numpy raises \<^verbatim>\<open>ValueError\<close> when that is impossible.
\<close>

definition iadd :: "ndarray \<Rightarrow> ndarray \<Rightarrow> error + ndarray" where
  "iadd a b =
     (case broadcast_to (shape a) b of
        None \<Rightarrow> Inl ValueError
      | Some b' \<Rightarrow> Inr \<lparr>shape = shape a, flat = map2 (+) (flat a) (flat b')\<rparr>)"

text \<open>\<^verbatim>\<open>a + b\<close> on arrays: both operands are broadcast to their common shape.\<close>

definition add :: "ndarray \<Rightarrow> ndarray \<Rightarrow> error + ndarray" where
  "add a b =
     (case broadcast_shapes (shape a) (shape b) of
        None \<Rightarrow> Inl ValueError
      | Some s \<Rightarrow>
          (case (broadcast_to s a, broadcast_to s b) of
             (Some a', Some b') \<Rightarrow> Inr \<lparr>shape = s, flat = map2 (+) (flat a') (flat b')\<rparr>
           | _ \<Rightarrow> Inl ValueError))"

text \<open>\<^verbatim>\<open>c * a\<close> and \<^verbatim>\<open>a / c\<close> for a Python number \<open>c\<close> and an array \<open>a\<close>.\<close>

definition scale :: "real \<Rightarrow> ndarray \<Rightarrow> ndarray" where
  "scale c a = \<lparr>shape = shape a, flat = map (\<lambda>v. c * v) (flat a)\<rparr>"

definition divide_by :: "ndarray \<Rightarrow> real \<Rightarrow> ndarray" where
  "divide_by a c = \<lparr>shape = shape a, flat = map (\<lambda>v. v / c) (flat a)\<rparr>"

text \<open>
  Integer indexing of a one-dimensional array: an index \<open>i\<close> with \<open>- n \<le> i < 0\<close> counts
  from the end, an index outside \<open>- n \<le> i < n\<close> raises \<^verbatim>\<open>IndexError\<close>.
\<close>

definition valid_index :: "nat \<Rightarrow> int \<Rightarrow> bool" where
  "valid_index n i \<longleftrightarrow> - int n \<le> i \<and> i < int n"

definition element :: "real list \<Rightarrow> int \<Rightarrow> real" where
  "element xs i = xs ! nat (if i < 0 then int (length xs) + i else i)"

definition np_index :: "real list \<Rightarrow> int \<Rightarrow> error + real" where
  "np_index xs i = (if valid_index (length xs) i then Inr (element xs i) else Inl IndexError)"

text \<open>\<^verbatim>\<open>xs[indices]\<close> for an integer array \<open>indices\<close>.\<close>

fun take_indices :: "real list \<Rightarrow> int list \<Rightarrow> error + real list" where
  "take_indices xs [] = Inr []"
| "take_indices xs (i # is) =
     (case np_index xs i of
        Inl e \<Rightarrow> Inl e
      | Inr v \<Rightarrow> (case take_indices xs is of Inl e \<Rightarrow> Inl e | Inr vs \<Rightarrow> Inr (v # vs)))"

text \<open>
  \<^verbatim>\<open>ws[bs]\<close> for a boolean array \<open>bs\<close>: numpy compares the length of \<open>bs\<close> with the
  length of the indexed array only when \<open>bs\<close> is not empty, and raises \<^verbatim>\<open>IndexError\<close> when
  they differ. An empty \<open>bs\<close> selects nothing, from an array of any length.
\<close>

definition mask_select :: "real list \<Rightarrow> bool list \<Rightarrow> error + real list" where
  "mask_select ws bs =
     (if bs \<noteq> [] \<and> length bs \<noteq> length ws then Inl IndexError
      else Inr (map fst (filter snd (zip ws bs))))"

subsection \<open>The two dose-volume metrics\<close>

text \<open>
  Lines 109 to 113 of the script, repeated at lines 138 to 141 inside the projection loop:
  \<^verbatim>\<open>
  roi_doses = dose.flatten()[voxel_indices]
  v6000 = np.sum(relative_volumes[roi_doses >= threshold_v6000]) * 100
  v6200 = np.sum(roi_doses >= threshold_v6200) * voxel_volume_cc
  \<close>
\<close>

record metric_pair =
  v_dose_percent :: real
  v_volume_cc :: real

definition compute_metrics ::
  "ndarray \<Rightarrow> int list \<Rightarrow> real list \<Rightarrow> real \<Rightarrow> real \<Rightarrow> real \<Rightarrow> error + metric_pair" where
  "compute_metrics dose voxel_indices relative_volumes voxel_volume_cc threshold_v6000 threshold_v6200 =
     (case take_indices (flat dose) voxel_indices of
        Inl e \<Rightarrow> Inl e
      | Inr roi_doses \<Rightarrow>
          (case mask_select relative_volumes (map (\<lambda>d. threshold_v6000 \<le> d) roi_doses) of
             Inl e \<Rightarrow> Inl e
           | Inr selected \<Rightarrow>
               Inr \<lparr>v_dose_percent = sum_list selected * 100,
                    v_volume_cc =
                      real (length (filter (\<lambda>d. threshold_v6200 \<le> d) roi_doses)) * voxel_volume_cc\<rparr>))"

subsection \<open>The planning system's data\<close>

text \<open>
  What the script reads from the treatment planning system, as plain data. A treatment
  fraction carries its delivery status, the geometry of its dose grid (\<^verbatim>\<open>NrVoxels\<close> and
  \<^verbatim>\<open>VoxelSize\<close>, each as \<open>(x, y, z)\<close>) and its dose array
  \<^verbatim>\<open>EstimatedFractionDoseOnTotalDoseExamination.DoseValues.DoseData\<close>.
\<close>

record fraction =
  Status :: string
  NrVoxels :: "nat \<times> nat \<times> nat"
  VoxelSize :: "real \<times> real \<times> real"
  DoseData :: ndarray

text \<open>
  The \<^verbatim>\<open>Model\<close> object. \<open>plan_fraction_count\<close> is
  \<^verbatim>\<open>len(self.plan.TreatmentCourse.TreatmentFractions)\<close>; \<open>TreatmentFractions\<close> is the
  collection \<^verbatim>\<open>self.case.TreatmentDelivery.TreatmentCourse.TreatmentFractions\<close>, a different
  object of the planning system; \<open>VoxelIndices\<close> and \<open>RelativeVolumes\<close> are the
  \<^verbatim>\<open>RoiVolumeDistribution\<close> of the rectum on the beam set's dose grid. The region and the
  estimated dose of each fraction are taken to exist: a failure inside the planning system
  is not modelled.
\<close>

record model =
  FirstName :: string
  LastName :: string
  plan_fraction_count :: nat
  TreatmentFractions :: "fraction list"
  VoxelIndices :: "int list"
  RelativeVolumes :: "real list"

subsection \<open>Effects\<close>

text \<open>
  Reads of the planning system, message boxes, plots and the call of \<^verbatim>\<open>exit()\<close> are
  recorded, in order, in a trace. The state a call runs in is the \<^verbatim>\<open>Model\<close> object and the
  trace so far.
\<close>

datatype event =
    GetDoseGridRoi string
  | GetNrVoxels nat
  | GetVoxelSize nat
  | GetDoseData nat
  | InsufficientFractionsBox int
  | DoseTooHighBox real real
  | PhysicianReviewBox
  | Plot "int list" "int list" "real list"
  | Exit

record world =
  self :: model
  trace :: "event list"

definition emit :: "event \<Rightarrow> world \<Rightarrow> world" where
  "emit e w = w\<lparr>trace := trace w @ [e]\<rparr>"

text \<open>\<^verbatim>\<open>TreatmentFractions[i]\<close> for \<open>i \<ge> 0\<close>: out of range, the collection raises.\<close>

definition get_fraction :: "nat \<Rightarrow> world \<Rightarrow> error + fraction" where
  "get_fraction i w =
     (if i < length (TreatmentFractions (self w)) then Inr (TreatmentFractions (self w) ! i)
      else Inl IndexError)"

subsection \<open>\<^verbatim>\<open>Model.get_fraction_info\<close>\<close>

definition get_fraction_info :: "model \<Rightarrow> string \<times> int \<times> int" where
  "get_fraction_info m =
     (let full_name = FirstName m @ '' '' @ LastName m;
          total_fractions = int (plan_fraction_count m);
          delivered_fractions =
            int (length (filter (\<lambda>f. Status f = ''Delivered'') (TreatmentFractions m)))
      in (full_name, total_fractions, delivered_fractions - 1))"

subsection \<open>\<^verbatim>\<open>Model.evaluate_rectal_air\<close>\<close>

definition threshold_v6000 :: real where
  "threshold_v6000 = 6000"

definition threshold_v6200 :: real where
  "threshold_v6200 = 6200"

definition volume_limit_v6200 :: real where
  "volume_limit_v6200 = 2.0"

definition dose_limit_v6000 :: real where
  "dose_limit_v6000 = 3.0"

text \<open>
  Lines 83 to 94: the grid shape and the voxel volume, both read from fraction 0.
\<close>

definition retrieve_geometry :: "world \<Rightarrow> (error + (nat \<times> nat \<times> nat) \<times> real) \<times> world" where
  "retrieve_geometry w =
     (let w1 = emit (GetNrVoxels 0) w in
      case get_fraction 0 w1 of
        Inl e \<Rightarrow> (Inl e, w1)
      | Inr f \<Rightarrow>
          (let grid_shape = NrVoxels f;
               w2 = emit (GetVoxelSize 0) w1;
               voxel_volume_cc = (case VoxelSize f of (x, y, z) \<Rightarrow> x * y * z)
           in (Inr (grid_shape, voxel_volume_cc), w2)))"

text \<open>
  Lines 100 to 102, the loop body \<^verbatim>\<open>delivered_dose += TreatmentFractions[i]...DoseData\<close>
  over the indices of \<^verbatim>\<open>range(delivered_fractions)\<close>. The array \<open>delivered_dose\<close> is the
  fresh one \<^verbatim>\<open>np.zeros\<close> returned, local to the call: the update in place changes it and no
  array of the planning system.
\<close>

fun accumulate_loop :: "nat list \<Rightarrow> ndarray \<Rightarrow> world \<Rightarrow> (error + ndarray) \<times> world" where
  "accumulate_loop [] delivered_dose w = (Inr delivered_dose, w)"
| "accumulate_loop (i # is) delivered_dose w =
     (let w1 = emit (GetDoseData i) w in
      case get_fraction i w1 of
        Inl e \<Rightarrow> (Inl e, w1)
      | Inr f \<Rightarrow>
          (case iadd delivered_dose (DoseData f) of
             Inl e \<Rightarrow> (Inl e, w1)
           | Inr d \<Rightarrow> accumulate_loop is d w1))"

text \<open>
  Lines 97 to 105: the summed dose of the delivered fractions and their mean. In the script
  the division is only reached with \<open>delivered_fractions \<ge> 5\<close>; a division by 0, which
  gives NaN in numpy, has no counterpart in the model and is excluded where it would matter.
\<close>

definition accumulate ::
  "nat \<times> nat \<times> nat \<Rightarrow> int \<Rightarrow> world \<Rightarrow> (error + ndarray \<times> ndarray) \<times> world" where
  "accumulate grid_shape delivered_fractions w =
     (case grid_shape of (x, y, z) \<Rightarrow>
        (case accumulate_loop [0..<nat delivered_fractions] (zeros (z, y, x)) w of
           (Inl e, w1) \<Rightarrow> (Inl e, w1)
         | (Inr delivered_dose, w1) \<Rightarrow>
             (Inr (delivered_dose, divide_by delivered_dose (of_int delivered_fractions)), w1)))"

text \<open>Lines 136 and 137: \<^verbatim>\<open>y * mean_dose + x * air_dose\<close> with \<^verbatim>\<open>y = total_fractions - x\<close>.\<close>

definition future_total_dose :: "int \<Rightarrow> int \<Rightarrow> ndarray \<Rightarrow> ndarray \<Rightarrow> error + ndarray" where
  "future_total_dose total_fractions x mean_dose air_dose =
     (let y = total_fractions - x
      in add (scale (of_int y) mean_dose) (scale (of_int x) air_dose))"

text \<open>Lines 135 to 144: the projection loop, appending to the two result lists.\<close>

fun project_loop ::
  "int list \<Rightarrow> int \<Rightarrow> ndarray \<Rightarrow> ndarray \<Rightarrow> int list \<Rightarrow> real list \<Rightarrow> real \<Rightarrow>
   real list \<times> real list \<Rightarrow> error + real list \<times> real list" where
  "project_loop [] total_fractions mean_dose air_dose voxel_indices relative_volumes
     voxel_volume_cc CG = Inr CG"
| "project_loop (x # xs) total_fractions mean_dose air_dose voxel_indices relative_volumes
     voxel_volume_cc CG =
     (case future_total_dose total_fractions x mean_dose air_dose of
        Inl e \<Rightarrow> Inl e
      | Inr future \<Rightarrow>
          (case compute_metrics future voxel_indices relative_volumes voxel_volume_cc
                  threshold_v6000 threshold_v6200 of
             Inl e \<Rightarrow> Inl e
           | Inr m \<Rightarrow>
               project_loop xs total_fractions mean_dose air_dose voxel_indices relative_volumes
                 voxel_volume_cc (fst CG @ [v_dose_percent m], snd CG @ [v_volume_cc m])))"

text \<open>Lines 132 to 144: the loop runs over \<^verbatim>\<open>range(1, remaining_fractions + 1)\<close>.\<close>

definition project ::
  "int \<Rightarrow> int \<Rightarrow> ndarray \<Rightarrow> ndarray \<Rightarrow> int list \<Rightarrow> real list \<Rightarrow> real \<Rightarrow>
   error + real list \<times> real list" where
  "project total_fractions delivered_fractions mean_dose air_dose voxel_indices relative_volumes
     voxel_volume_cc =
     (let remaining_fractions = total_fractions - delivered_fractions
      in project_loop [1..remaining_fractions] total_fractions mean_dose air_dose voxel_indices
           relative_volumes voxel_volume_cc ([], []))"

text \<open>
  \<^verbatim>\<open>Model.plot_prediction\<close>: a message box, then the two plots over
  \<^verbatim>\<open>range(delivered_fractions + 1, total_fractions + 1)\<close>, with the secondary axis labelled
  by \<^verbatim>\<open>range(1, total_fractions - delivered_fractions + 1)\<close>. The rendering itself is
  outside the model.
\<close>

definition plot_prediction :: "real list \<Rightarrow> real list \<Rightarrow> int \<Rightarrow> int \<Rightarrow> world \<Rightarrow> world" where
  "plot_prediction CG6000 CG6200 delivered_fractions total_fractions w =
     (let fraction_numbers = [delivered_fractions + 1..total_fractions];
          fraction_numbers_air = [1..total_fractions - delivered_fractions]
      in emit (Plot fraction_numbers fraction_numbers_air CG6200)
           (emit (Plot fraction_numbers fraction_numbers_air CG6000)
              (emit PhysicianReviewBox w)))"

text \<open>
  The three ways the call ends without an exception: the message box of line 58 followed by
  \<^verbatim>\<open>exit()\<close>, the message box of line 117 followed by \<^verbatim>\<open>exit()\<close>, and the call of
  \<^verbatim>\<open>plot_prediction\<close>. The result records which one was taken and the values of the local
  variables \<^verbatim>\<open>current_v6000\<close>, \<^verbatim>\<open>current_v6200\<close>, \<^verbatim>\<open>CG_v6000\<close> and \<^verbatim>\<open>CG_v6200\<close> at that
  point.
\<close>

datatype decision = Proceed | InterveneInsufficientData | InterveneGoalExceeded

record result =
  decision :: decision
  current_metrics :: "metric_pair option"
  CG_v6000 :: "real list"
  CG_v6200 :: "real list"

definition evaluate_rectal_air :: "int \<Rightarrow> int \<Rightarrow> world \<Rightarrow> (error + result) \<times> world" where
  "evaluate_rectal_air total_fractions delivered_fractions w =
     (if delivered_fractions < 5 then
        (Inr \<lparr>decision = InterveneInsufficientData, current_metrics = None,
              CG_v6000 = [], CG_v6200 = []\<rparr>,
         emit Exit (emit (InsufficientFractionsBox delivered_fractions) w))
      else
        (let w1 = emit (GetDoseGridRoi ''Rectum'') w;
             voxel_indices = VoxelIndices (self w1);
             relative_volumes = RelativeVolumes (self w1)
         in
          (case retrieve_geometry w1 of
            (Inl e, w2) \<Rightarrow> (Inl e, w2)
          | (Inr (grid_shape, voxel_volume_cc), w2) \<Rightarrow>
          (case accumulate grid_shape delivered_fractions w2 of
            (Inl e, w3) \<Rightarrow> (Inl e, w3)
          | (Inr (delivered_dose, mean_dose), w3) \<Rightarrow>
          (let accumulated_dose = scale (of_int total_fractions) mean_dose in
          (case compute_metrics accumulated_dose voxel_indices relative_volumes voxel_volume_cc
                 threshold_v6000 threshold_v6200 of
            Inl e \<Rightarrow> (Inl e, w3)
          | Inr current \<Rightarrow>
          (if dose_limit_v6000 \<le> v_dose_percent current
              \<or> volume_limit_v6200 \<le> v_volume_cc current then
            (Inr \<lparr>decision = InterveneGoalExceeded, current_metrics = Some current,
                  CG_v6000 = [], CG_v6200 = []\<rparr>,
             emit Exit
               (emit (DoseTooHighBox (v_dose_percent current) (v_volume_cc current)) w3))
          else
            (let w4 = emit (GetDoseData (nat delivered_fractions)) w3 in
            (case get_fraction (nat delivered_fractions) w4 of
              Inl e \<Rightarrow> (Inl e, w4)
            | Inr f \<Rightarrow>
            (case project total_fractions delivered_fractions mean_dose (DoseData f)
                    voxel_indices relative_volumes voxel_volume_cc of
              Inl e \<Rightarrow> (Inl e, w4)
            | Inr (CG6000, CG6200) \<Rightarrow>
                (Inr \<lparr>decision = Proceed, current_metrics = Some current,
                      CG_v6000 = CG6000, CG_v6200 = CG6200\<rparr>,
                 plot_prediction CG6000 CG6200 delivered_fractions total_fractions
                   w4)))))))))))"

subsection \<open>The controller and the view\<close>

text \<open>
  \<^verbatim>\<open>View.initialize_data\<close> shows the counts returned by \<^verbatim>\<open>get_fraction_info\<close>;
  \<^verbatim>\<open>View._analyse_clicked\<close> reads them back and passes them, through
  \<^verbatim>\<open>Controller.run_analysis\<close>, to \<^verbatim>\<open>evaluate_rectal_air\<close>.
\<close>

definition run_analysis :: "int \<Rightarrow> int \<Rightarrow> world \<Rightarrow> (error + result) \<times> world" where
  "run_analysis total_fractions delivered_fractions w =
     evaluate_rectal_air total_fractions delivered_fractions w"

definition analyse_clicked :: "world \<Rightarrow> (error + result) \<times> world" where
  "analyse_clicked w =
     (case get_fraction_info (self w) of
        (full_name, total_fractions, delivered_fractions) \<Rightarrow>
          run_analysis total_fractions delivered_fractions w)"

subsection \<open>Example data\<close>

text \<open>
  A region of ten voxels of relative volume 0.1 each, three of them at 7000 cGy and seven at
  5000 cGy.
\<close>

definition example_roi_dose :: ndarray where
  "example_roi_dose =
     \<lparr>shape = (1, 1, 10),
      flat = [7000, 7000, 7000, 5000, 5000, 5000, 5000, 5000, 5000, 5000]\<rparr>"

definition example_roi_indices :: "int list" where
  "example_roi_indices = [0, 1, 2, 3, 4, 5, 6, 7, 8, 9]"

definition example_roi_weights :: "real list" where
  "example_roi_weights = [0.1, 0.1, 0.1, 0.1, 0.1, 0.1, 0.1, 0.1, 0.1, 0.1]"

text \<open>
  A fraction whose dose grid is a single row of voxels, and a course as in the boundary
  example of the specification: ten planned fractions, five delivered at 500 cGy per voxel,
  the fraction with rectal air at 700 cGy (reported as delivered by the planning system),
  four pending.
\<close>

definition voxel_fraction :: "string \<Rightarrow> real list \<Rightarrow> fraction" where
  "voxel_fraction status doses =
     \<lparr>Status = status, NrVoxels = (length doses, 1, 1), VoxelSize = (0.5, 1, 1),
      DoseData = \<lparr>shape = (1, 1, length doses), flat = doses\<rparr>\<rparr>"

definition example_fractions :: "fraction list" where
  "example_fractions =
     [voxel_fraction ''Delivered'' [500], voxel_fraction ''Delivered'' [500],
      voxel_fraction ''Delivered'' [500], voxel_fraction ''Delivered'' [500],
      voxel_fraction ''Delivered'' [500], voxel_fraction ''Delivered'' [700],
      voxel_fraction ''Pending'' [0], voxel_fraction ''Pending'' [0],
      voxel_fraction ''Pending'' [0], voxel_fraction ''Pending'' [0]]"

definition example_model :: model where
  "example_model =
     \<lparr>FirstName = ''A'', LastName = ''B'', plan_fraction_count = 10,
      TreatmentFractions = example_fractions, VoxelIndices = [0], RelativeVolumes = [1]\<rparr>"

text \<open>
  A course whose predicted total dose puts exactly 3 percent of the region at 6000 cGy or
  more.
\<close>

definition example_limit_model :: model where
  "example_limit_model =
     \<lparr>FirstName = ''A'', LastName = ''B'', plan_fraction_count = 10,
      TreatmentFractions =
        [voxel_fraction ''Delivered'' [610, 100], voxel_fraction ''Delivered'' [610, 100],
         voxel_fraction ''Delivered'' [610, 100], voxel_fraction ''Delivered'' [610, 100],
         voxel_fraction ''Delivered'' [610, 100], voxel_fraction ''Delivered'' [700, 100]],
      VoxelIndices = [0, 1], RelativeVolumes = [0.03, 0.97]\<rparr>"

definition example_mean_dose :: ndarray where
  "example_mean_dose = \<lparr>shape = (1, 1, 1), flat = [500]\<rparr>"

definition example_air_dose :: ndarray where
  "example_air_dose = \<lparr>shape = (1, 1, 1), flat = [700]\<rparr>"

definition example_constant_fractions :: "fraction list" where
  "example_constant_fractions =
     [voxel_fraction ''Delivered'' [1000], voxel_fraction ''Delivered'' [1000],
      voxel_fraction ''Delivered'' [1000], voxel_fraction ''Delivered'' [1000],
      voxel_fraction ''Delivered'' [1000]]"

definition example_broadcast_fractions :: "fraction list" where
  "example_broadcast_fractions =
     [voxel_fraction ''Delivered'' [500, 400], voxel_fraction ''Delivered'' [500],
      voxel_fraction ''Delivered'' [500], voxel_fraction ''Delivered'' [500],
      voxel_fraction ''Delivered'' [500], voxel_fraction ''Delivered'' [700]]"

definition example_mismatch_fractions :: "fraction list" where
  "example_mismatch_fractions =
     [voxel_fraction ''Delivered'' [10, 20], voxel_fraction ''Delivered'' [10, 20],
      voxel_fraction ''Delivered'' [10, 20], voxel_fraction ''Delivered'' [10, 20],
      voxel_fraction ''Delivered'' [1, 2, 3]]"

definition example_world :: "fraction list \<Rightarrow> world" where
  "example_world fs = \<lparr>self = example_model\<lparr>TreatmentFractions := fs\<rparr>, trace = []\<rparr>"

section \<open>Properties\<close>

subsection \<open>Indexing and the metrics\<close>

text \<open>
  Integer indexing succeeds exactly when every index is valid, and then the metrics are
  defined exactly when there is no index at all or there are as many weights as indices.
\<close>

lemma take_indices_eq:
  "take_indices xs js =
     (if \<forall>i\<in>set js. valid_index (length xs) i then Inr (map (element xs) js) else Inl IndexError)"
  by (induction js) (auto simp: np_index_def)

lemma sum_list_selected:
  assumes "length ws = length bs"
  shows "sum_list (map fst (filter snd (zip ws bs))) = (\<Sum>i | i < length ws \<and> bs ! i. ws ! i)"
proof -
  let ?n = "length ws"
  have z: "zip ws bs = map (\<lambda>i. (ws ! i, bs ! i)) [0..<?n]"
    using assms by (intro nth_equalityI) simp_all
  have "map fst (filter snd (zip ws bs)) = map (\<lambda>i. ws ! i) (filter (\<lambda>i. bs ! i) [0..<?n])"
    unfolding z by (simp add: filter_map comp_def)
  moreover have "sum_list (map (\<lambda>i. ws ! i) (filter (\<lambda>i. bs ! i) [0..<?n]))
      = sum (\<lambda>i. ws ! i) (set (filter (\<lambda>i. bs ! i) [0..<?n]))"
    by (rule sum_list_distinct_conv_sum_set) simp
  moreover have "set (filter (\<lambda>i. bs ! i) [0..<?n]) = {i. i < ?n \<and> bs ! i}"
    by auto
  ultimately show ?thesis by simp
qed

lemma length_filter_indices:
  "length (filter P (map f js)) = card {i. i < length js \<and> P (f (js ! i))}"
proof -
  let ?n = "length js"
  have m: "map f js = map (\<lambda>i. f (js ! i)) [0..<?n]"
    by (intro nth_equalityI) simp_all
  have "length (filter P (map f js)) = length (filter (\<lambda>i. P (f (js ! i))) [0..<?n])"
    by (subst m) (simp add: filter_map comp_def)
  also have "\<dots> = card (set (filter (\<lambda>i. P (f (js ! i))) [0..<?n]))"
    by (rule distinct_card [symmetric]) simp
  also have "set (filter (\<lambda>i. P (f (js ! i))) [0..<?n]) = {i. i < ?n \<and> P (f (js ! i))}"
    by auto
  finally show ?thesis .
qed

lemma compute_metrics_eq:
  "compute_metrics dose vi rv vol t1 t2 =
     (if (\<forall>i\<in>set vi. valid_index (length (flat dose)) i)
          \<and> (vi = [] \<or> length vi = length rv) then
        Inr \<lparr>v_dose_percent =
               sum_list (map fst (filter snd (zip rv (map (\<lambda>i. t1 \<le> element (flat dose) i) vi)))) * 100,
             v_volume_cc = real (length (filter (\<lambda>d. t2 \<le> d) (map (element (flat dose)) vi))) * vol\<rparr>
      else Inl IndexError)"
  by (auto simp: compute_metrics_def take_indices_eq mask_select_def comp_def)

text \<open>
  Claim C2. For index and weight lists of equal length whose indices all lie within the
  flattened dose grid, \<open>compute_metrics\<close> returns as \<open>v_dose_percent\<close> 100 times the sum of
  the weights at exactly those positions whose dose is at or above the first threshold, and
  as \<open>v_volume_cc\<close> the voxel volume times the number of positions whose dose is at or above
  the second threshold (a count, not weighted).
\<close>

theorem compute_metrics_formula:
  assumes "length roi_indices = length roi_weights"
    and "\<forall>i<length roi_indices. valid_index (length (flat dose_grid)) (roi_indices ! i)"
  shows "compute_metrics dose_grid roi_indices roi_weights voxel_volume_cc
           dose_threshold_pct dose_threshold_vol =
         Inr \<lparr>v_dose_percent =
                100 * (\<Sum>i | i < length roi_indices
                           \<and> dose_threshold_pct \<le> element (flat dose_grid) (roi_indices ! i).
                         roi_weights ! i),
              v_volume_cc =
                voxel_volume_cc *
                real (card {i. i < length roi_indices
                          \<and> dose_threshold_vol \<le> element (flat dose_grid) (roi_indices ! i)})\<rparr>"
proof -
  let ?bs = "map (\<lambda>i. dose_threshold_pct \<le> element (flat dose_grid) i) roi_indices"
  have v: "\<forall>i\<in>set roi_indices. valid_index (length (flat dose_grid)) i"
    using assms(2) by (auto simp: in_set_conv_nth)
  have "sum_list (map fst (filter snd (zip roi_weights ?bs)))
      = (\<Sum>i | i < length roi_weights \<and> ?bs ! i. roi_weights ! i)"
    by (rule sum_list_selected) (simp add: assms(1))
  also have "{i. i < length roi_weights \<and> ?bs ! i}
      = {i. i < length roi_indices \<and> dose_threshold_pct \<le> element (flat dose_grid) (roi_indices ! i)}"
    using assms(1) by auto
  finally have s: "sum_list (map fst (filter snd (zip roi_weights ?bs)))
      = (\<Sum>i | i < length roi_indices
              \<and> dose_threshold_pct \<le> element (flat dose_grid) (roi_indices ! i). roi_weights ! i)" .
  have c: "length (filter (\<lambda>d. dose_threshold_vol \<le> d) (map (element (flat dose_grid)) roi_indices))
      = card {i. i < length roi_indices
                \<and> dose_threshold_vol \<le> element (flat dose_grid) (roi_indices ! i)}"
    by (rule length_filter_indices)
  have "compute_metrics dose_grid roi_indices roi_weights voxel_volume_cc
           dose_threshold_pct dose_threshold_vol =
        Inr \<lparr>v_dose_percent = sum_list (map fst (filter snd (zip roi_weights ?bs))) * 100,
             v_volume_cc =
               real (length (filter (\<lambda>d. dose_threshold_vol \<le> d)
                        (map (element (flat dose_grid)) roi_indices))) * voxel_volume_cc\<rparr>"
    using v assms(1) by (subst compute_metrics_eq) simp
  then show ?thesis
    unfolding s c by (simp only: mult.commute)
qed

text \<open>
  The region of ten voxels: 30 percent and 1.5 cc.
\<close>

theorem compute_metrics_formula_witness:
  "length example_roi_indices = length example_roi_weights
   \<and> compute_metrics example_roi_dose example_roi_indices example_roi_weights 0.5 6000 6200
       = Inr \<lparr>v_dose_percent = 30, v_volume_cc = 1.5\<rparr>
   \<and> 100 * (\<Sum>i | i < length example_roi_indices
                 \<and> 6000 \<le> element (flat example_roi_dose) (example_roi_indices ! i).
               example_roi_weights ! i) = 30
   \<and> 0.5 * real (card {i. i < length example_roi_indices
                 \<and> 6200 \<le> element (flat example_roi_dose) (example_roi_indices ! i)}) = 1.5"
proof -
  have l: "length example_roi_indices = length example_roi_weights"
    by (simp add: example_roi_indices_def example_roi_weights_def)
  have "\<forall>i\<in>set example_roi_indices. valid_index (length (flat example_roi_dose)) i"
    by (simp add: example_roi_indices_def example_roi_dose_def valid_index_def)
  then have v: "\<forall>i<length example_roi_indices.
      valid_index (length (flat example_roi_dose)) (example_roi_indices ! i)"
    by (simp add: all_set_conv_all_nth)
  have e: "compute_metrics example_roi_dose example_roi_indices example_roi_weights 0.5 6000 6200
       = Inr \<lparr>v_dose_percent = 30, v_volume_cc = 1.5\<rparr>"
    by (simp add: compute_metrics_def example_roi_dose_def example_roi_indices_def
        example_roi_weights_def np_index_def valid_index_def element_def mask_select_def)
  show ?thesis
    using l v e compute_metrics_formula [OF l v, of "0.5" 6000 6200] by simp
qed

text \<open>
  The claim C6 as stated fails: an empty region yields a metric pair, not an error.
\<close>

theorem empty_roi_counterexample:
  "compute_metrics example_roi_dose [] [] 0.5 6000 6200
     = Inr \<lparr>v_dose_percent = 0, v_volume_cc = 0\<rparr>"
  by (simp add: compute_metrics_def mask_select_def)

text \<open>
  Claim C6, as amended. With an empty index list \<open>compute_metrics\<close> raises no error: it
  returns the pair \<open>(0, 0)\<close>, whatever the dose grid, the weights and the thresholds are.
\<close>

theorem compute_metrics_empty_roi:
  "compute_metrics dose_grid [] roi_weights voxel_volume_cc dose_threshold_pct dose_threshold_vol =
     Inr \<lparr>v_dose_percent = 0, v_volume_cc = 0\<rparr>"
  by (simp add: compute_metrics_def mask_select_def)

subsection \<open>The trace and the state\<close>

text \<open>
  Every step returns a result that depends on the \<^verbatim>\<open>Model\<close> object only, leaves that object
  as it is and appends its events to the trace.
\<close>

lemma self_emit [simp]: "self (emit e w) = self w"
  by (simp add: emit_def)

lemma trace_emit [simp]: "trace (emit e w) = trace w @ [e]"
  by (simp add: emit_def)

lemma get_fraction_emit [simp]: "get_fraction i (emit e w) = get_fraction i w"
  by (simp add: get_fraction_def)

lemma emit_world: "emit e \<lparr>self = m, trace = tr\<rparr> = \<lparr>self = m, trace = tr @ [e]\<rparr>"
  by (simp add: emit_def)





lemma plot_prediction_world:
  "plot_prediction a b d t \<lparr>self = m, trace = tr\<rparr>
     = \<lparr>self = m, trace = tr @ [PhysicianReviewBox, Plot [d + 1..t] [1..t - d] a, Plot [d + 1..t] [1..t - d] b]\<rparr>"
  by (simp add: plot_prediction_def emit_world Let_def)


text \<open>
  What a successful step returns and records, whatever the trace it starts from.
\<close>

lemma emit_eq: "emit e w = w\<lparr>trace := trace w @ [e]\<rparr>"
  by (simp add: emit_def)

lemma get_fraction_trace_update [simp]: "get_fraction i (w\<lparr>trace := tr\<rparr>) = get_fraction i w"
  by (simp add: get_fraction_def)

lemma retrieve_geometry_Inr:
  assumes "fst (retrieve_geometry w) = Inr gv" and "self w' = self w"
  shows "retrieve_geometry w' = (Inr gv, w'\<lparr>trace := trace w' @ [GetNrVoxels 0, GetVoxelSize 0]\<rparr>)"
  using assms
  by (auto simp: retrieve_geometry_def Let_def emit_eq get_fraction_def split: if_splits)

lemma accumulate_loop_Inr:
  assumes "fst (accumulate_loop js acc w) = Inr dd" and "self w' = self w"
  shows "accumulate_loop js acc w' = (Inr dd, w'\<lparr>trace := trace w' @ map GetDoseData js\<rparr>)"
  using assms
proof (induction js arbitrary: acc w w')
  case Nil
  then show ?case by simp
next
  case (Cons i js)
  from Cons.prems(1) obtain f where f: "get_fraction i w = Inr f"
    by (cases "get_fraction i w") (simp_all add: Let_def)
  with Cons.prems(1) obtain d where d: "iadd acc (DoseData f) = Inr d"
    by (cases "iadd acc (DoseData f)") (simp_all add: Let_def)
  from f d Cons.prems(1) have "fst (accumulate_loop js d (emit (GetDoseData i) w)) = Inr dd"
    by (simp add: Let_def)
  moreover have "self (emit (GetDoseData i) w') = self (emit (GetDoseData i) w)"
    using Cons.prems(2) by simp
  ultimately have "accumulate_loop js d (emit (GetDoseData i) w')
      = (Inr dd, (emit (GetDoseData i) w')\<lparr>trace := trace (emit (GetDoseData i) w') @ map GetDoseData js\<rparr>)"
    by (rule Cons.IH)
  moreover have "(emit (GetDoseData i) w')\<lparr>trace := trace (emit (GetDoseData i) w') @ map GetDoseData js\<rparr>
      = w'\<lparr>trace := trace w' @ map GetDoseData (i # js)\<rparr>"
    by (simp add: emit_def)
  moreover have "get_fraction i w' = Inr f"
    using f Cons.prems(2) by (simp add: get_fraction_def split: if_splits)
  ultimately show ?case
    using d by (simp add: Let_def)
qed

lemma accumulate_Inr:
  assumes "fst (accumulate gs d w) = Inr sm" and "self w' = self w"
  shows "accumulate gs d w' = (Inr sm, w'\<lparr>trace := trace w' @ map GetDoseData [0..<nat d]\<rparr>)"
proof -
  obtain x y z where g: "gs = (x, y, z)" by (cases gs) auto
  let ?l = "accumulate_loop [0..<nat d] (zeros (z, y, x))"
  from assms(1) obtain dd where dd: "fst (?l w) = Inr dd"
    by (cases "?l w"; cases "fst (?l w)") (auto simp: accumulate_def g)
  with assms(1) have sm: "sm = (dd, divide_by dd (of_int d))"
    by (cases "?l w") (auto simp: accumulate_def g)
  from accumulate_loop_Inr [OF dd assms(2)] show ?thesis
    by (simp add: accumulate_def g sm)
qed

text \<open>
  The accumulation loop: on grids of the accumulator's shape it sums voxel by voxel; on a
  grid that cannot be broadcast it raises.
\<close>

lemma iadd_same_shape:
  "shape b = shape a \<Longrightarrow> iadd a b = Inr \<lparr>shape = shape a, flat = map2 (+) (flat a) (flat b)\<rparr>"
  by (simp add: iadd_def broadcast_to_def)

lemma iadd_shape: "iadd a b = Inr c \<Longrightarrow> shape c = shape a"
  by (auto simp: iadd_def split: option.splits)

lemma expandable_refl [simp]: "expandable s s"
  by (cases s) (simp add: expandable_def)

lemma broadcast_to_None: "broadcast_to t a = None \<longleftrightarrow> \<not> expandable (shape a) t"
  by (auto simp: broadcast_to_def)

lemma accumulate_loop_sum:
  assumes "\<forall>i\<in>set js. i < length (TreatmentFractions (self w))
             \<and> shape (DoseData (TreatmentFractions (self w) ! i)) = shape acc
             \<and> length (flat (DoseData (TreatmentFractions (self w) ! i))) = length (flat acc)"
  shows "accumulate_loop js acc w =
           (Inr \<lparr>shape = shape acc,
                 flat = map (\<lambda>j. flat acc ! j
                            + (\<Sum>i\<leftarrow>js. flat (DoseData (TreatmentFractions (self w) ! i)) ! j))
                          [0..<length (flat acc)]\<rparr>,
            w\<lparr>trace := trace w @ map GetDoseData js\<rparr>)"
  using assms
proof (induction js arbitrary: acc w)
  case Nil
  have "map (\<lambda>j. flat acc ! j) [0..<length (flat acc)] = flat acc"
    by (rule map_nth)
  then show ?case by simp
next
  case (Cons i js)
  let ?fs = "TreatmentFractions (self w)"
  let ?d = "DoseData (?fs ! i)"
  let ?acc1 = "\<lparr>shape = shape acc, flat = map2 (+) (flat acc) (flat ?d)\<rparr>"
  let ?w1 = "emit (GetDoseData i) w"
  from Cons.prems have i: "i < length ?fs" "shape ?d = shape acc" "length (flat ?d) = length (flat acc)"
    by simp_all
  have f: "get_fraction i ?w1 = Inr (?fs ! i)"
    using i(1) by (simp add: get_fraction_def)
  have a: "iadd acc ?d = Inr ?acc1"
    using i(2) by (rule iadd_same_shape)
  have "\<forall>k\<in>set js. k < length (TreatmentFractions (self ?w1))
             \<and> shape (DoseData (TreatmentFractions (self ?w1) ! k)) = shape ?acc1
             \<and> length (flat (DoseData (TreatmentFractions (self ?w1) ! k))) = length (flat ?acc1)"
    using Cons.prems i(3) by simp
  from Cons.IH [OF this] have
    "accumulate_loop js ?acc1 ?w1 =
       (Inr \<lparr>shape = shape acc,
             flat = map (\<lambda>j. flat ?acc1 ! j + (\<Sum>k\<leftarrow>js. flat (DoseData (?fs ! k)) ! j))
                      [0..<length (flat acc)]\<rparr>,
        w\<lparr>trace := trace w @ GetDoseData i # map GetDoseData js\<rparr>)"
    using i(3) by (simp add: emit_eq)
  moreover have "map (\<lambda>j. flat ?acc1 ! j + (\<Sum>k\<leftarrow>js. flat (DoseData (?fs ! k)) ! j))
                      [0..<length (flat acc)]
      = map (\<lambda>j. flat acc ! j + (\<Sum>k\<leftarrow>i # js. flat (DoseData (?fs ! k)) ! j))
                      [0..<length (flat acc)]"
    using i(3) by (intro map_cong) simp_all
  ultimately show ?case
    using f a by (simp add: Let_def)
qed

lemma accumulate_loop_mismatch:
  assumes "\<forall>i\<in>set js. i < length (TreatmentFractions (self w))"
    and "\<exists>i\<in>set js. \<not> expandable (shape (DoseData (TreatmentFractions (self w) ! i))) (shape acc)"
  shows "fst (accumulate_loop js acc w) = Inl ValueError"
  using assms
proof (induction js arbitrary: acc w)
  case Nil
  then show ?case by simp
next
  case (Cons i js)
  let ?fs = "TreatmentFractions (self w)"
  let ?w1 = "emit (GetDoseData i) w"
  have f: "get_fraction i ?w1 = Inr (?fs ! i)"
    using Cons.prems(1) by (simp add: get_fraction_def)
  show ?case
  proof (cases "iadd acc (DoseData (?fs ! i))")
    case (Inl e)
    then have "e = ValueError"
      by (auto simp: iadd_def split: option.splits)
    with Inl f show ?thesis by (simp add: Let_def)
  next
    case (Inr d)
    then have s: "shape d = shape acc" by (rule iadd_shape)
    from Inr have "broadcast_to (shape acc) (DoseData (?fs ! i)) \<noteq> None"
      by (auto simp: iadd_def split: option.splits)
    then have "expandable (shape (DoseData (?fs ! i))) (shape acc)"
      by (simp add: broadcast_to_None)
    with Cons.prems(2) have "\<exists>k\<in>set js. \<not> expandable (shape (DoseData (?fs ! k))) (shape acc)"
      by auto
    with Cons.prems(1) s have "fst (accumulate_loop js d ?w1) = Inl ValueError"
      by (intro Cons.IH) simp_all
    with Inr f show ?thesis by (simp add: Let_def)
  qed
qed

subsection \<open>The forward projection\<close>

text \<open>
  On grids of one shape no broadcasting takes place, and the loop maps the metrics over the
  steps \<open>1, \<dots>, remaining\<close>.
\<close>

lemma broadcast_axis_same [simp]: "broadcast_axis n n = Some n"
  by (simp add: broadcast_axis_def)

lemma broadcast_shapes_same [simp]: "broadcast_shapes s s = Some s"
  by (cases s) (simp add: broadcast_shapes_def)

lemma add_same_shape:
  "shape b = shape a \<Longrightarrow> add a b = Inr \<lparr>shape = shape a, flat = map2 (+) (flat a) (flat b)\<rparr>"
  by (simp add: add_def broadcast_to_def)

lemma map2_map_map: "map2 f (map g xs) (map h ys) = map2 (\<lambda>x y. f (g x) (h y)) xs ys"
  by (auto simp: zip_map_map)

lemma future_total_dose_same_shape:
  assumes "shape air_dose = shape mean_dose"
  shows "future_total_dose total_fractions x mean_dose air_dose =
    Inr \<lparr>shape = shape mean_dose,
         flat = map2 (\<lambda>m a. of_int (total_fractions - x) * m + of_int x * a)
                  (flat mean_dose) (flat air_dose)\<rparr>"
  using assms
  by (simp add: future_total_dose_def Let_def add_same_shape scale_def map2_map_map)

lemma project_loop_eq:
  assumes "\<And>x. x \<in> set xs \<Longrightarrow> future_total_dose t x mean air = Inr (G x)"
    and "\<And>x. x \<in> set xs \<Longrightarrow>
           compute_metrics (G x) vi rv vol threshold_v6000 threshold_v6200 = Inr (M x)"
  shows "project_loop xs t mean air vi rv vol CG =
           Inr (fst CG @ map (\<lambda>x. v_dose_percent (M x)) xs,
                snd CG @ map (\<lambda>x. v_volume_cc (M x)) xs)"
  using assms
proof (induction xs arbitrary: CG)
  case Nil
  then show ?case by simp
next
  case (Cons x xs)
  have "project_loop xs t mean air vi rv vol
          (fst CG @ [v_dose_percent (M x)], snd CG @ [v_volume_cc (M x)]) =
        Inr (fst (fst CG @ [v_dose_percent (M x)], snd CG @ [v_volume_cc (M x)])
               @ map (\<lambda>x. v_dose_percent (M x)) xs,
             snd (fst CG @ [v_dose_percent (M x)], snd CG @ [v_volume_cc (M x)])
               @ map (\<lambda>x. v_volume_cc (M x)) xs)"
    by (rule Cons.IH) (simp_all add: Cons.prems)
  then show ?case
    by (simp add: Cons.prems)
qed

lemma nth_upto_from_1:
  assumes "1 \<le> x" and "x \<le> r"
  shows "[1..r] ! nat (x - 1) = x"
  using assms by (simp add: nth_upto)

text \<open>
  The claim C1 as stated fails in its last part: at \<open>x = remaining = 5\<close> the hypothetical
  grid is 6000 cGy and not \<open>total_fraction_count * air_dose\<close>, which is 7000 cGy, and the
  last entry of the curve has 0 cc at 6200 cGy where the grid of 7000 cGy has 0.5 cc.
\<close>

theorem projection_boundary_counterexample:
  "future_total_dose 10 (10 - 5) example_mean_dose example_air_dose
     = Inr \<lparr>shape = (1, 1, 1), flat = [6000]\<rparr>
   \<and> scale (of_int 10) example_air_dose = \<lparr>shape = (1, 1, 1), flat = [7000]\<rparr>
   \<and> project 10 5 example_mean_dose example_air_dose [0] [1] 0.5
       = Inr ([0, 0, 0, 0, 100], [0, 0, 0, 0, 0])
   \<and> compute_metrics (scale (of_int 10) example_air_dose) [0] [1] 0.5
         threshold_v6000 threshold_v6200
       = Inr \<lparr>v_dose_percent = 100, v_volume_cc = 0.5\<rparr>"
  by code_simp

text \<open>
  Claim C1, as amended. For mean and air dose grids of one shape, region indices inside the
  grid and as many weights as indices, the projection returns two lists of exactly
  \<open>remaining = total_fraction_count - delivered_fraction_count\<close> entries. The entry for
  \<open>x\<close>, at position \<open>x - 1\<close> for \<open>x\<close> ascending from 1 to \<open>remaining\<close>, is the metric pair
  of the element-wise grid \<open>(total_fraction_count - x) * mean_dose + x * air_dose\<close>. At
  \<open>x = remaining\<close> that grid is
  \<open>delivered_fraction_count * mean_dose + remaining * air_dose\<close>.
\<close>

theorem projection_curve:
  assumes "shape air_dose = shape mean_dose"
    and "length (flat air_dose) = length (flat mean_dose)"
    and "\<forall>i\<in>set roi_indices. valid_index (length (flat mean_dose)) i"
    and "length roi_indices = length roi_weights"
  shows "\<exists>CG6000 CG6200.
     project total_fraction_count delivered_fraction_count mean_dose air_dose
         roi_indices roi_weights voxel_volume_cc = Inr (CG6000, CG6200)
     \<and> length CG6000 = nat (total_fraction_count - delivered_fraction_count)
     \<and> length CG6200 = nat (total_fraction_count - delivered_fraction_count)
     \<and> (\<forall>x. 1 \<le> x \<and> x \<le> total_fraction_count - delivered_fraction_count \<longrightarrow>
           compute_metrics
             \<lparr>shape = shape mean_dose,
              flat = map2 (\<lambda>m a. of_int (total_fraction_count - x) * m + of_int x * a)
                       (flat mean_dose) (flat air_dose)\<rparr>
             roi_indices roi_weights voxel_volume_cc threshold_v6000 threshold_v6200
           = Inr \<lparr>v_dose_percent = CG6000 ! nat (x - 1), v_volume_cc = CG6200 ! nat (x - 1)\<rparr>)
     \<and> future_total_dose total_fraction_count
           (total_fraction_count - delivered_fraction_count) mean_dose air_dose
         = Inr \<lparr>shape = shape mean_dose,
                flat = map2 (\<lambda>m a. of_int delivered_fraction_count * m
                                 + of_int (total_fraction_count - delivered_fraction_count) * a)
                         (flat mean_dose) (flat air_dose)\<rparr>"
proof -
  let ?t = total_fraction_count
  let ?r = "total_fraction_count - delivered_fraction_count"
  define G where "G x = \<lparr>shape = shape mean_dose,
      flat = map2 (\<lambda>m a. of_int (?t - x) * m + of_int x * a) (flat mean_dose) (flat air_dose)\<rparr>"
    for x :: int
  define M where "M x = \<lparr>v_dose_percent =
        sum_list (map fst (filter snd (zip roi_weights
           (map (\<lambda>i. threshold_v6000 \<le> element (flat (G x)) i) roi_indices)))) * 100,
      v_volume_cc =
        real (length (filter (\<lambda>d. threshold_v6200 \<le> d) (map (element (flat (G x))) roi_indices)))
          * voxel_volume_cc\<rparr>"
    for x :: int
  have g: "future_total_dose ?t x mean_dose air_dose = Inr (G x)" for x
    unfolding G_def using assms(1) by (rule future_total_dose_same_shape)
  have lg: "length (flat (G x)) = length (flat mean_dose)" for x
    by (simp add: G_def assms(2))
  have m: "compute_metrics (G x) roi_indices roi_weights voxel_volume_cc
             threshold_v6000 threshold_v6200 = Inr (M x)" for x
    unfolding M_def using assms(3,4) by (subst compute_metrics_eq) (simp add: lg)
  have p: "project ?t delivered_fraction_count mean_dose air_dose roi_indices roi_weights
             voxel_volume_cc
           = Inr (map (\<lambda>x. v_dose_percent (M x)) [1..?r], map (\<lambda>x. v_volume_cc (M x)) [1..?r])"
    using project_loop_eq [of "[1..?r]" ?t mean_dose air_dose G roi_indices roi_weights
        voxel_volume_cc M "([], [])"] g m
    by (simp add: project_def Let_def)
  have e: "compute_metrics (G x) roi_indices roi_weights voxel_volume_cc
             threshold_v6000 threshold_v6200
           = Inr \<lparr>v_dose_percent = map (\<lambda>x. v_dose_percent (M x)) [1..?r] ! nat (x - 1),
                  v_volume_cc = map (\<lambda>x. v_volume_cc (M x)) [1..?r] ! nat (x - 1)\<rparr>"
    if "1 \<le> x" "x \<le> ?r" for x
  proof -
    have "nat (x - 1) < length [1..?r]" using that by simp
    moreover have "[1..?r] ! nat (x - 1) = x" using that by (rule nth_upto_from_1)
    ultimately show ?thesis by (simp add: m)
  qed
  have b: "future_total_dose ?t ?r mean_dose air_dose
         = Inr \<lparr>shape = shape mean_dose,
                flat = map2 (\<lambda>m a. of_int delivered_fraction_count * m + of_int ?r * a)
                         (flat mean_dose) (flat air_dose)\<rparr>"
    using future_total_dose_same_shape [OF assms(1), of ?t ?r] by simp
  have l1: "length (map (\<lambda>x. v_dose_percent (M x)) [1..?r]) = nat ?r"
    by simp
  have l2: "length (map (\<lambda>x. v_volume_cc (M x)) [1..?r]) = nat ?r"
    by simp
  show ?thesis
    using p l1 l2 e [unfolded G_def] b by blast
qed

text \<open>
  The boundary example of the specification: ten fractions, five delivered, 500 cGy mean
  and 700 cGy with rectal air. The curve has five entries; the first is evaluated on 5200 cGy
  and the last on 6000 cGy.
\<close>

theorem projection_curve_witness:
  "project 10 5 example_mean_dose example_air_dose [0] [1] 0.5
     = Inr ([0, 0, 0, 0, 100], [0, 0, 0, 0, 0])
   \<and> compute_metrics \<lparr>shape = (1, 1, 1), flat = [5200]\<rparr> [0] [1] 0.5
         threshold_v6000 threshold_v6200
       = Inr \<lparr>v_dose_percent = 0, v_volume_cc = 0\<rparr>
   \<and> compute_metrics \<lparr>shape = (1, 1, 1), flat = [6000]\<rparr> [0] [1] 0.5
         threshold_v6000 threshold_v6200
       = Inr \<lparr>v_dose_percent = 100, v_volume_cc = 0\<rparr>
   \<and> future_total_dose 10 (10 - 5) example_mean_dose example_air_dose
       = Inr \<lparr>shape = (1, 1, 1), flat = [6000]\<rparr>"
proof -
  have h1: "shape example_air_dose = shape example_mean_dose"
    by (simp add: example_air_dose_def example_mean_dose_def)
  have h2: "length (flat example_air_dose) = length (flat example_mean_dose)"
    by (simp add: example_air_dose_def example_mean_dose_def)
  have h3: "\<forall>i\<in>set [0]. valid_index (length (flat example_mean_dose)) i"
    by (simp add: valid_index_def example_mean_dose_def)
  have h4: "length [0::int] = length [1::real]"
    by simp
  from projection_curve [OF h1 h2 h3 h4, of 10 5 "0.5"] obtain CG6000 CG6200 where
    p: "project 10 5 example_mean_dose example_air_dose [0] [1] 0.5 = Inr (CG6000, CG6200)"
    and e: "\<And>x. 1 \<le> x \<and> x \<le> 10 - 5 \<Longrightarrow>
           compute_metrics
             \<lparr>shape = shape example_mean_dose,
              flat = map2 (\<lambda>m a. of_int (10 - x) * m + of_int x * a)
                       (flat example_mean_dose) (flat example_air_dose)\<rparr>
             [0] [1] 0.5 threshold_v6000 threshold_v6200
           = Inr \<lparr>v_dose_percent = CG6000 ! nat (x - 1), v_volume_cc = CG6200 ! nat (x - 1)\<rparr>"
    and b: "future_total_dose 10 (10 - 5) example_mean_dose example_air_dose
         = Inr \<lparr>shape = shape example_mean_dose,
                flat = map2 (\<lambda>m a. of_int 5 * m + of_int (10 - 5) * a)
                         (flat example_mean_dose) (flat example_air_dose)\<rparr>"
    by blast
  have v: "project 10 5 example_mean_dose example_air_dose [0] [1] 0.5
     = Inr ([0, 0, 0, 0, 100], [0, 0, 0, 0, 0])"
    by code_simp
  from p v have c: "CG6000 = [0, 0, 0, 0, 100]" "CG6200 = [0, 0, 0, 0, 0]"
    by simp_all
  from e [of 1] have e1: "compute_metrics \<lparr>shape = (1, 1, 1), flat = [5200]\<rparr> [0] [1] 0.5
         threshold_v6000 threshold_v6200 = Inr \<lparr>v_dose_percent = 0, v_volume_cc = 0\<rparr>"
    by (simp add: c example_mean_dose_def example_air_dose_def)
  from e [of 5] have e5: "compute_metrics \<lparr>shape = (1, 1, 1), flat = [6000]\<rparr> [0] [1] 0.5
         threshold_v6000 threshold_v6200 = Inr \<lparr>v_dose_percent = 100, v_volume_cc = 0\<rparr>"
    by (simp add: c example_mean_dose_def example_air_dose_def)
  from b have b': "future_total_dose 10 (10 - 5) example_mean_dose example_air_dose
       = Inr \<lparr>shape = (1, 1, 1), flat = [6000]\<rparr>"
    by (simp add: example_mean_dose_def example_air_dose_def)
  from v e1 e5 b' show ?thesis
    by blast
qed



subsection \<open>The two gates and the lookup of the fraction with rectal air\<close>

text \<open>
  Once the gate is passed, the geometry read, the doses accumulated and the current metrics
  computed, the call is determined as follows.
\<close>

lemma evaluate_rectal_air_after_metrics:
  assumes "5 \<le> delivered_fractions"
    and "fst (retrieve_geometry w) = Inr (grid_shape, voxel_volume_cc)"
    and "fst (accumulate grid_shape delivered_fractions w) = Inr (delivered_dose, mean_dose)"
    and "compute_metrics (scale (of_int total_fractions) mean_dose) (VoxelIndices (self w))
           (RelativeVolumes (self w)) voxel_volume_cc threshold_v6000 threshold_v6200 = Inr current"
  shows "evaluate_rectal_air total_fractions delivered_fractions w =
    (let w3 = w\<lparr>trace := trace w @ [GetDoseGridRoi ''Rectum'', GetNrVoxels 0, GetVoxelSize 0]
                     @ map GetDoseData [0..<nat delivered_fractions]\<rparr>
     in if dose_limit_v6000 \<le> v_dose_percent current
           \<or> volume_limit_v6200 \<le> v_volume_cc current then
          (Inr \<lparr>decision = InterveneGoalExceeded, current_metrics = Some current,
                CG_v6000 = [], CG_v6200 = []\<rparr>,
           emit Exit (emit (DoseTooHighBox (v_dose_percent current) (v_volume_cc current)) w3))
        else
          (let w4 = emit (GetDoseData (nat delivered_fractions)) w3 in
           case get_fraction (nat delivered_fractions) w of
             Inl e \<Rightarrow> (Inl e, w4)
           | Inr f \<Rightarrow>
               (case project total_fractions delivered_fractions mean_dose (DoseData f) (VoxelIndices (self w))
                       (RelativeVolumes (self w)) voxel_volume_cc of
                  Inl e \<Rightarrow> (Inl e, w4)
                | Inr (CG6000, CG6200) \<Rightarrow>
                    (Inr \<lparr>decision = Proceed, current_metrics = Some current,
                          CG_v6000 = CG6000, CG_v6200 = CG6200\<rparr>,
                     plot_prediction CG6000 CG6200 delivered_fractions total_fractions w4))))"
proof -
  obtain m tr where w: "w = \<lparr>self = m, trace = tr\<rparr>"
    by (cases w) auto
  have g: "retrieve_geometry \<lparr>self = m, trace = tr'\<rparr>
      = (Inr (grid_shape, voxel_volume_cc),
         \<lparr>self = m, trace = tr' @ [GetNrVoxels 0, GetVoxelSize 0]\<rparr>)" for tr'
    using retrieve_geometry_Inr [OF assms(2), of "\<lparr>self = m, trace = tr'\<rparr>"]
    by (simp add: w)
  have a: "accumulate grid_shape delivered_fractions \<lparr>self = m, trace = tr'\<rparr>
      = (Inr (delivered_dose, mean_dose),
         \<lparr>self = m, trace = tr' @ map GetDoseData [0..<nat delivered_fractions]\<rparr>)" for tr'
    using accumulate_Inr [OF assms(3), of "\<lparr>self = m, trace = tr'\<rparr>"]
    by (simp add: w)
  show ?thesis
    using assms(1,4) unfolding w
    by (simp add: evaluate_rectal_air_def Let_def emit_world g a get_fraction_def plot_prediction_world
        del: upt_Suc split: sum.splits prod.splits)
qed

lemma accumulate_loop_in_range:
  assumes "fst (accumulate_loop js acc w) = Inr dd"
  shows "\<forall>i\<in>set js. i < length (TreatmentFractions (self w))"
  using assms
proof (induction js arbitrary: acc w)
  case Nil
  then show ?case by simp
next
  case (Cons i js)
  from Cons.prems obtain f where f: "get_fraction i w = Inr f"
    by (cases "get_fraction i w") (simp_all add: Let_def)
  with Cons.prems obtain d where d: "iadd acc (DoseData f) = Inr d"
    by (cases "iadd acc (DoseData f)") (simp_all add: Let_def)
  from f d Cons.prems have "fst (accumulate_loop js d (emit (GetDoseData i) w)) = Inr dd"
    by (simp add: Let_def)
  then have "\<forall>k\<in>set js. k < length (TreatmentFractions (self (emit (GetDoseData i) w)))"
    by (rule Cons.IH)
  moreover from f have "i < length (TreatmentFractions (self w))"
    by (simp add: get_fraction_def split: if_splits)
  ultimately show ?case by simp
qed

lemma accumulate_in_range:
  assumes "fst (accumulate gs d w) = Inr sm"
  shows "d \<le> int (length (TreatmentFractions (self w)))"
proof -
  obtain x y z where g: "gs = (x, y, z)" by (cases gs) auto
  let ?l = "accumulate_loop [0..<nat d] (zeros (z, y, x))"
  from assms obtain dd where "fst (?l w) = Inr dd"
    by (cases "?l w"; cases "fst (?l w)") (auto simp: accumulate_def g)
  then have "\<forall>i\<in>set [0..<nat d]. i < length (TreatmentFractions (self w))"
    by (rule accumulate_loop_in_range)
  then have "nat d \<le> length (TreatmentFractions (self w))"
    by (cases "nat d") auto
  then show ?thesis by simp
qed

lemma evaluate_rectal_air_past_gate:
  assumes "\<not> delivered_fractions < 5"
    and "fst (evaluate_rectal_air total_fractions delivered_fractions w) = Inr r"
  shows "decision r \<noteq> InterveneInsufficientData"
  using assms
  by (auto simp: evaluate_rectal_air_def Let_def split: sum.splits prod.splits if_splits)

text \<open>
  Claim C3. The analysis gates on the count of fractions reported as delivered, less one.
  When that is below 5 it ends with the decision \<open>InterveneInsufficientData\<close>, no metrics
  and empty curves, whatever the dose data are, and its only effects are the message box,
  which shows the count less one, and the exit: nothing is read from the planning system.
  When it is 5 or more, no result of the analysis has that decision.
\<close>

theorem insufficient_fractions_gate:
  assumes "reported_delivered_count =
             int (length (filter (\<lambda>f. Status f = ''Delivered'') (TreatmentFractions (self w))))"
  shows "(reported_delivered_count - 1 < 5 \<longrightarrow>
          analyse_clicked w =
           (Inr \<lparr>decision = InterveneInsufficientData, current_metrics = None,
                 CG_v6000 = [], CG_v6200 = []\<rparr>,
            w\<lparr>trace := trace w @ [InsufficientFractionsBox (reported_delivered_count - 1), Exit]\<rparr>))
       \<and> (5 \<le> reported_delivered_count - 1 \<longrightarrow>
          (\<forall>r. fst (analyse_clicked w) = Inr r \<longrightarrow> decision r \<noteq> InterveneInsufficientData))"
proof (intro conjI impI allI)
  assume "reported_delivered_count - 1 < 5"
  with assms show "analyse_clicked w =
           (Inr \<lparr>decision = InterveneInsufficientData, current_metrics = None,
                 CG_v6000 = [], CG_v6200 = []\<rparr>,
            w\<lparr>trace := trace w @ [InsufficientFractionsBox (reported_delivered_count - 1), Exit]\<rparr>)"
    by (simp add: analyse_clicked_def get_fraction_info_def run_analysis_def
        evaluate_rectal_air_def emit_def Let_def)
next
  fix r
  assume g: "5 \<le> reported_delivered_count - 1" and r: "fst (analyse_clicked w) = Inr r"
  have a: "analyse_clicked w
      = evaluate_rectal_air (int (plan_fraction_count (self w))) (reported_delivered_count - 1) w"
    using assms by (simp add: analyse_clicked_def get_fraction_info_def run_analysis_def Let_def)
  from g have "\<not> reported_delivered_count - 1 < 5" by simp
  then show "decision r \<noteq> InterveneInsufficientData"
    using r unfolding a by (rule evaluate_rectal_air_past_gate)
qed

text \<open>
  With five fractions reported as delivered the effective count is four and the gate
  closes; with six it is open.
\<close>

theorem insufficient_fractions_gate_witness:
  "analyse_clicked (example_world (take 5 example_fractions)) =
     (Inr \<lparr>decision = InterveneInsufficientData, current_metrics = None,
           CG_v6000 = [], CG_v6200 = []\<rparr>,
      (example_world (take 5 example_fractions))\<lparr>trace := [InsufficientFractionsBox 4, Exit]\<rparr>)
   \<and> fst (analyse_clicked (example_world example_fractions)) =
       Inr \<lparr>decision = Proceed,
            current_metrics = Some \<lparr>v_dose_percent = 0, v_volume_cc = 0\<rparr>,
            CG_v6000 = [0, 0, 0, 0, 100], CG_v6200 = [0, 0, 0, 0, 0]\<rparr>
   \<and> decision \<lparr>decision = Proceed,
            current_metrics = Some \<lparr>v_dose_percent = 0, v_volume_cc = 0\<rparr>,
            CG_v6000 = [0, 0, 0, 0, 100], CG_v6200 = [0, 0, 0, 0, 0]\<rparr> \<noteq> InterveneInsufficientData"
proof -
  let ?w5 = "example_world (take 5 example_fractions)"
  let ?w = "example_world example_fractions"
  let ?r = "\<lparr>decision = Proceed,
            current_metrics = Some \<lparr>v_dose_percent = 0, v_volume_cc = 0\<rparr>,
            CG_v6000 = [0, 0, 0, 0, 100], CG_v6200 = [0, 0, 0, 0, 0]\<rparr>"
  have c5: "(5::int) = int (length (filter (\<lambda>f. Status f = ''Delivered'')
                (TreatmentFractions (self ?w5))))"
    by (simp add: example_world_def example_fractions_def voxel_fraction_def)
  have c6: "(6::int) = int (length (filter (\<lambda>f. Status f = ''Delivered'')
                (TreatmentFractions (self ?w))))"
    by (simp add: example_world_def example_fractions_def voxel_fraction_def)
  have t: "trace ?w5 = []"
    by (simp add: example_world_def)
  have v: "fst (analyse_clicked ?w) = Inr ?r"
    by code_simp
  from insufficient_fractions_gate [OF c5] t
  have 1: "analyse_clicked ?w5 =
     (Inr \<lparr>decision = InterveneInsufficientData, current_metrics = None,
           CG_v6000 = [], CG_v6200 = []\<rparr>,
      ?w5\<lparr>trace := [InsufficientFractionsBox 4, Exit]\<rparr>)"
    by simp
  from insufficient_fractions_gate [OF c6] v
  have 2: "decision ?r \<noteq> InterveneInsufficientData"
    by simp
  from 1 v 2 show ?thesis
    by blast
qed

text \<open>
  Claim C4. Past the sufficiency gate, with the geometry read and the doses accumulated, the
  current metrics are those of \<open>mean_dose * total_fractions\<close> at the thresholds 6000 and
  6200. If the first is at least 3 or the second at least 2, the call ends with the decision
  \<open>InterveneGoalExceeded\<close>, these metrics and empty curves. The trace shows the reads of
  the delivered fractions only, then the message box and the exit: the fraction with rectal
  air is not read and nothing is plotted.
\<close>

theorem goal_exceeded:
  assumes "5 \<le> delivered_fractions"
    and "fst (retrieve_geometry w) = Inr (grid_shape, voxel_volume_cc)"
    and "fst (accumulate grid_shape delivered_fractions w) = Inr (delivered_dose, mean_dose)"
    and "compute_metrics (scale (of_int total_fractions) mean_dose) (VoxelIndices (self w))
           (RelativeVolumes (self w)) voxel_volume_cc 6000 6200 = Inr current"
    and "3 \<le> v_dose_percent current \<or> 2 \<le> v_volume_cc current"
  shows "evaluate_rectal_air total_fractions delivered_fractions w =
           (Inr \<lparr>decision = InterveneGoalExceeded, current_metrics = Some current,
                 CG_v6000 = [], CG_v6200 = []\<rparr>,
            w\<lparr>trace := trace w
                @ [GetDoseGridRoi ''Rectum'', GetNrVoxels 0, GetVoxelSize 0]
                @ map GetDoseData [0..<nat delivered_fractions]
                @ [DoseTooHighBox (v_dose_percent current) (v_volume_cc current), Exit]\<rparr>)"
proof -
  have c: "compute_metrics (scale (of_int total_fractions) mean_dose) (VoxelIndices (self w))
           (RelativeVolumes (self w)) voxel_volume_cc threshold_v6000 threshold_v6200 = Inr current"
    using assms(4) by (simp add: threshold_v6000_def threshold_v6200_def)
  have l: "dose_limit_v6000 \<le> v_dose_percent current \<or> volume_limit_v6200 \<le> v_volume_cc current"
    using assms(5) by (simp add: dose_limit_v6000_def volume_limit_v6200_def)
  show ?thesis
    unfolding evaluate_rectal_air_after_metrics [OF assms(1-3) c]
    using l by (simp add: Let_def emit_def del: upt_Suc)
qed

text \<open>
  A first metric of exactly 3 percent triggers the intervention.
\<close>

theorem goal_exceeded_witness:
  "evaluate_rectal_air 10 5 \<lparr>self = example_limit_model, trace = []\<rparr> =
     (Inr \<lparr>decision = InterveneGoalExceeded,
           current_metrics = Some \<lparr>v_dose_percent = 3, v_volume_cc = 0\<rparr>,
           CG_v6000 = [], CG_v6200 = []\<rparr>,
      \<lparr>self = example_limit_model,
       trace = [GetDoseGridRoi ''Rectum'', GetNrVoxels 0, GetVoxelSize 0]
                @ map GetDoseData [0..<5] @ [DoseTooHighBox 3 0, Exit]\<rparr>)"
proof -
  let ?w = "\<lparr>self = example_limit_model, trace = []\<rparr>"
  let ?cur = "\<lparr>v_dose_percent = 3, v_volume_cc = 0\<rparr>"
  have h1: "(5::int) \<le> 5" by simp
  have h2: "fst (retrieve_geometry ?w) = Inr ((2, 1, 1), 0.5)"
    by code_simp
  have h3: "fst (accumulate (2, 1, 1) 5 ?w)
      = Inr (\<lparr>shape = (1, 1, 2), flat = [3050, 500]\<rparr>, \<lparr>shape = (1, 1, 2), flat = [610, 100]\<rparr>)"
    by code_simp
  have h4: "compute_metrics (scale (of_int 10) \<lparr>shape = (1, 1, 2), flat = [610, 100]\<rparr>)
      (VoxelIndices (self ?w)) (RelativeVolumes (self ?w)) 0.5 6000 6200 = Inr ?cur"
    by code_simp
  have h5: "3 \<le> v_dose_percent ?cur \<or> 2 \<le> v_volume_cc ?cur"
    by simp
  from goal_exceeded [OF h1 h2 h3 h4 h5] show ?thesis
    by simp
qed

text \<open>
  The claim C10 as stated fails: with a plan of five fractions and a delivery course of six,
  all reported as delivered, the analysis runs with \<open>delivered_fractions = 5\<close> and
  \<open>total_fractions = 5\<close>, the read at index 5 is within range, and the decision is
  \<open>Proceed\<close> with empty curves.
\<close>

theorem air_fraction_lookup_counterexample:
  "get_fraction_info (example_model\<lparr>plan_fraction_count := 5,
                                   TreatmentFractions := take 6 example_fractions\<rparr>)
     = (''A B'', 5, 5)
   \<and> analyse_clicked
       \<lparr>self = example_model\<lparr>plan_fraction_count := 5,
                            TreatmentFractions := take 6 example_fractions\<rparr>,
        trace = []\<rparr>
     = (Inr \<lparr>decision = Proceed,
             current_metrics = Some \<lparr>v_dose_percent = 0, v_volume_cc = 0\<rparr>,
             CG_v6000 = [], CG_v6200 = []\<rparr>,
        \<lparr>self = example_model\<lparr>plan_fraction_count := 5,
                             TreatmentFractions := take 6 example_fractions\<rparr>,
         trace = [GetDoseGridRoi ''Rectum'', GetNrVoxels 0, GetVoxelSize 0,
                  GetDoseData 0, GetDoseData 1, GetDoseData 2, GetDoseData 3, GetDoseData 4,
                  GetDoseData 5, PhysicianReviewBox, Plot [] [] [], Plot [] [] []]\<rparr>)"
  by code_simp

text \<open>
  Claim C10, as amended. When neither limit is reached, the dose grid of the fraction with
  rectal air is read at index \<open>delivered_fractions\<close> of the delivery course's fraction
  collection. That index is at most the length of the collection; the read raises
  \<^verbatim>\<open>IndexError\<close> exactly when it equals the length, and otherwise the projection runs on
  the grid found there. \<open>total_fractions\<close> bounds the index only when the collection has
  \<open>total_fractions\<close> entries.
\<close>

theorem air_fraction_lookup:
  assumes "5 \<le> delivered_fractions"
    and "fst (retrieve_geometry w) = Inr (grid_shape, voxel_volume_cc)"
    and "fst (accumulate grid_shape delivered_fractions w) = Inr (delivered_dose, mean_dose)"
    and "compute_metrics (scale (of_int total_fractions) mean_dose) (VoxelIndices (self w))
           (RelativeVolumes (self w)) voxel_volume_cc 6000 6200 = Inr current"
    and "v_dose_percent current < 3" and "v_volume_cc current < 2"
  shows "delivered_fractions \<le> int (length (TreatmentFractions (self w)))
     \<and> (int (length (TreatmentFractions (self w))) \<le> delivered_fractions \<longrightarrow>
          evaluate_rectal_air total_fractions delivered_fractions w =
            (Inl IndexError,
             w\<lparr>trace := trace w
                 @ [GetDoseGridRoi ''Rectum'', GetNrVoxels 0, GetVoxelSize 0]
                 @ map GetDoseData [0..<nat delivered_fractions]
                 @ [GetDoseData (nat delivered_fractions)]\<rparr>))
     \<and> (delivered_fractions < int (length (TreatmentFractions (self w))) \<longrightarrow>
          evaluate_rectal_air total_fractions delivered_fractions w =
            (let w4 = w\<lparr>trace := trace w
                        @ [GetDoseGridRoi ''Rectum'', GetNrVoxels 0, GetVoxelSize 0]
                        @ map GetDoseData [0..<nat delivered_fractions]
                        @ [GetDoseData (nat delivered_fractions)]\<rparr>;
                 air_dose = DoseData (TreatmentFractions (self w) ! nat delivered_fractions)
             in case project total_fractions delivered_fractions mean_dose air_dose
                       (VoxelIndices (self w)) (RelativeVolumes (self w)) voxel_volume_cc of
                  Inl e \<Rightarrow> (Inl e, w4)
                | Inr (CG6000, CG6200) \<Rightarrow>
                    (Inr \<lparr>decision = Proceed, current_metrics = Some current,
                          CG_v6000 = CG6000, CG_v6200 = CG6200\<rparr>,
                     plot_prediction CG6000 CG6200 delivered_fractions total_fractions w4)))
     \<and> (int (length (TreatmentFractions (self w))) = total_fractions \<longrightarrow>
          (fst (evaluate_rectal_air total_fractions delivered_fractions w) \<noteq> Inl IndexError
             \<longrightarrow> delivered_fractions < total_fractions))"
proof -
  have c: "compute_metrics (scale (of_int total_fractions) mean_dose) (VoxelIndices (self w))
           (RelativeVolumes (self w)) voxel_volume_cc threshold_v6000 threshold_v6200 = Inr current"
    using assms(4) by (simp add: threshold_v6000_def threshold_v6200_def)
  have l: "\<not> (dose_limit_v6000 \<le> v_dose_percent current
            \<or> volume_limit_v6200 \<le> v_volume_cc current)"
    using assms(5,6) by (simp add: dose_limit_v6000_def volume_limit_v6200_def)
  have r: "delivered_fractions \<le> int (length (TreatmentFractions (self w)))"
    using assms(3) by (rule accumulate_in_range)
  have e: "evaluate_rectal_air total_fractions delivered_fractions w =
     (let w4 = w\<lparr>trace := trace w
                        @ [GetDoseGridRoi ''Rectum'', GetNrVoxels 0, GetVoxelSize 0]
                        @ map GetDoseData [0..<nat delivered_fractions]
                        @ [GetDoseData (nat delivered_fractions)]\<rparr>
      in case get_fraction (nat delivered_fractions) w of
             Inl e \<Rightarrow> (Inl e, w4)
           | Inr f \<Rightarrow>
               (case project total_fractions delivered_fractions mean_dose (DoseData f)
                       (VoxelIndices (self w)) (RelativeVolumes (self w)) voxel_volume_cc of
                  Inl e \<Rightarrow> (Inl e, w4)
                | Inr (CG6000, CG6200) \<Rightarrow>
                    (Inr \<lparr>decision = Proceed, current_metrics = Some current,
                          CG_v6000 = CG6000, CG_v6200 = CG6200\<rparr>,
                     plot_prediction CG6000 CG6200 delivered_fractions total_fractions w4)))"
    unfolding evaluate_rectal_air_after_metrics [OF assms(1-3) c]
    using l by (simp add: Let_def emit_def del: upt_Suc split: sum.splits prod.splits)
  have o: "int (length (TreatmentFractions (self w))) \<le> delivered_fractions \<Longrightarrow>
      get_fraction (nat delivered_fractions) w = Inl IndexError"
    using assms(1) by (simp add: get_fraction_def)
  have i: "delivered_fractions < int (length (TreatmentFractions (self w))) \<Longrightarrow>
      get_fraction (nat delivered_fractions) w
        = Inr (TreatmentFractions (self w) ! nat delivered_fractions)"
    using assms(1) by (simp add: get_fraction_def)
  let ?n = "int (length (TreatmentFractions (self w)))"
  let ?w4 = "w\<lparr>trace := trace w
                 @ [GetDoseGridRoi ''Rectum'', GetNrVoxels 0, GetVoxelSize 0]
                 @ map GetDoseData [0..<nat delivered_fractions]
                 @ [GetDoseData (nat delivered_fractions)]\<rparr>"
  have c2: "evaluate_rectal_air total_fractions delivered_fractions w = (Inl IndexError, ?w4)"
    if "?n \<le> delivered_fractions"
    unfolding e o [OF that] by (simp add: Let_def)
  have c3: "evaluate_rectal_air total_fractions delivered_fractions w =
            (let w4 = ?w4;
                 air_dose = DoseData (TreatmentFractions (self w) ! nat delivered_fractions)
             in case project total_fractions delivered_fractions mean_dose air_dose
                       (VoxelIndices (self w)) (RelativeVolumes (self w)) voxel_volume_cc of
                  Inl e \<Rightarrow> (Inl e, w4)
                | Inr (CG6000, CG6200) \<Rightarrow>
                    (Inr \<lparr>decision = Proceed, current_metrics = Some current,
                          CG_v6000 = CG6000, CG_v6200 = CG6200\<rparr>,
                     plot_prediction CG6000 CG6200 delivered_fractions total_fractions w4))"
    if "delivered_fractions < ?n"
    unfolding e i [OF that] by (simp add: Let_def)
  have c4: "delivered_fractions < total_fractions"
    if "?n = total_fractions"
      and "fst (evaluate_rectal_air total_fractions delivered_fractions w) \<noteq> Inl IndexError"
  proof (rule ccontr)
    assume "\<not> delivered_fractions < total_fractions"
    with that(1) have "?n \<le> delivered_fractions" by simp
    from c2 [OF this] that(2) show False by simp
  qed
  from r c2 c3 c4 show ?thesis
    by blast
qed

text \<open>
  A delivery course of five fractions, all five counted as delivered: the read at index 5
  raises. In the course of ten fractions with five delivered the read succeeds and the
  projection runs on the grid of fraction 5.
\<close>

theorem air_fraction_lookup_witness:
  "evaluate_rectal_air 5 5 (example_world (take 5 example_fractions)) =
     (Inl IndexError,
      (example_world (take 5 example_fractions))
        \<lparr>trace := [GetDoseGridRoi ''Rectum'', GetNrVoxels 0, GetVoxelSize 0]
                  @ map GetDoseData [0..<5] @ [GetDoseData 5]\<rparr>)
   \<and> fst (evaluate_rectal_air 10 5 (example_world example_fractions)) =
       Inr \<lparr>decision = Proceed,
            current_metrics = Some \<lparr>v_dose_percent = 0, v_volume_cc = 0\<rparr>,
            CG_v6000 = [0, 0, 0, 0, 100], CG_v6200 = [0, 0, 0, 0, 0]\<rparr>
   \<and> project 10 5 \<lparr>shape = (1, 1, 1), flat = [500]\<rparr> (DoseData (example_fractions ! 5))
         [0] [1] 0.5
       = Inr ([0, 0, 0, 0, 100], [0, 0, 0, 0, 0])"
proof -
  let ?w5 = "example_world (take 5 example_fractions)"
  let ?w = "example_world example_fractions"
  let ?cur = "\<lparr>v_dose_percent = 0, v_volume_cc = 0\<rparr>"
  let ?r = "\<lparr>decision = Proceed, current_metrics = Some ?cur,
            CG_v6000 = [0, 0, 0, 0, 100], CG_v6200 = [0, 0, 0, 0, 0]\<rparr>"
  let ?p = "project 10 5 \<lparr>shape = (1, 1, 1), flat = [500]\<rparr> (DoseData (example_fractions ! 5))
              [0] [1] 0.5"
  have h1: "(5::int) \<le> 5" by simp
  have h2: "fst (retrieve_geometry ?w5) = Inr ((1, 1, 1), 0.5)"
    by code_simp
  have h3: "fst (accumulate (1, 1, 1) 5 ?w5)
      = Inr (\<lparr>shape = (1, 1, 1), flat = [2500]\<rparr>, \<lparr>shape = (1, 1, 1), flat = [500]\<rparr>)"
    by code_simp
  have h4: "compute_metrics (scale (of_int 5) \<lparr>shape = (1, 1, 1), flat = [500]\<rparr>)
      (VoxelIndices (self ?w5)) (RelativeVolumes (self ?w5)) 0.5 6000 6200 = Inr ?cur"
    by code_simp
  have h5: "v_dose_percent ?cur < 3" and h6: "v_volume_cc ?cur < 2"
    by simp_all
  have n: "int (length (TreatmentFractions (self ?w5))) \<le> 5"
    by (simp add: example_world_def example_fractions_def)
  have t: "trace ?w5 = []"
    by (simp add: example_world_def)
  from air_fraction_lookup [OF h1 h2 h3 h4 h5 h6] n t
  have 1: "evaluate_rectal_air 5 5 ?w5 =
     (Inl IndexError,
      ?w5\<lparr>trace := [GetDoseGridRoi ''Rectum'', GetNrVoxels 0, GetVoxelSize 0]
                  @ map GetDoseData [0..<5] @ [GetDoseData 5]\<rparr>)"
    by simp
  have k2: "fst (retrieve_geometry ?w) = Inr ((1, 1, 1), 0.5)"
    by code_simp
  have k3: "fst (accumulate (1, 1, 1) 5 ?w)
      = Inr (\<lparr>shape = (1, 1, 1), flat = [2500]\<rparr>, \<lparr>shape = (1, 1, 1), flat = [500]\<rparr>)"
    by code_simp
  have k4: "compute_metrics (scale (of_int 10) \<lparr>shape = (1, 1, 1), flat = [500]\<rparr>)
      (VoxelIndices (self ?w)) (RelativeVolumes (self ?w)) 0.5 6000 6200 = Inr ?cur"
    by code_simp
  have m: "(5::int) < int (length (TreatmentFractions (self ?w)))"
    by (simp add: example_world_def example_fractions_def)
  have v: "fst (evaluate_rectal_air 10 5 ?w) = Inr ?r"
    by code_simp
  have fs: "TreatmentFractions (self ?w) = example_fractions"
    "VoxelIndices (self ?w) = [0]" "RelativeVolumes (self ?w) = [1]"
    by (simp_all add: example_world_def example_model_def)
  from air_fraction_lookup [OF h1 k2 k3 k4 h5 h6] m
  have "fst (evaluate_rectal_air 10 5 ?w) =
          (case ?p of
             Inl e \<Rightarrow> Inl e
           | Inr (CG6000, CG6200) \<Rightarrow>
               Inr \<lparr>decision = Proceed, current_metrics = Some ?cur,
                    CG_v6000 = CG6000, CG_v6200 = CG6200\<rparr>)"
    by (simp add: fs Let_def split: sum.splits prod.splits)
  with v have 3: "?p = Inr ([0, 0, 0, 0, 100], [0, 0, 0, 0, 0])"
    by (cases ?p) auto
  from 1 v 3 show ?thesis
    by blast
qed

subsection \<open>Accumulation, shapes and repeated runs\<close>

text \<open>
  Claim C5. For \<open>N > 0\<close> fraction grids of one shape, the accumulation returns the
  element-wise sum of the \<open>N\<close> grids and that sum divided by \<open>N\<close>. The state after the call
  is the state before it with the \<open>N\<close> reads appended to the trace: the grids of the
  planning system are unchanged.
\<close>

theorem accumulate_sum_and_mean:
  assumes "0 < N" and "N \<le> length (TreatmentFractions (self w))"
    and "\<forall>i<N. shape (DoseData (TreatmentFractions (self w) ! i)) = (nz, ny, nx)
               \<and> wf_ndarray (DoseData (TreatmentFractions (self w) ! i))"
  shows "\<exists>summed_dose mean_dose.
      accumulate (nx, ny, nz) (int N) w =
        (Inr (summed_dose, mean_dose), w\<lparr>trace := trace w @ map GetDoseData [0..<N]\<rparr>)
    \<and> shape summed_dose = (nz, ny, nx) \<and> shape mean_dose = (nz, ny, nx)
    \<and> length (flat summed_dose) = nz * ny * nx \<and> length (flat mean_dose) = nz * ny * nx
    \<and> (\<forall>j<nz * ny * nx.
          flat summed_dose ! j = (\<Sum>i<N. flat (DoseData (TreatmentFractions (self w) ! i)) ! j)
          \<and> flat mean_dose ! j = flat summed_dose ! j / real N)"
proof -
  let ?fs = "TreatmentFractions (self w)"
  let ?n = "nz * ny * nx"
  let ?z = "zeros (nz, ny, nx)"
  let ?S = "\<lparr>shape = (nz, ny, nx),
             flat = map (\<lambda>j. flat ?z ! j + (\<Sum>i\<leftarrow>[0..<N]. flat (DoseData (?fs ! i)) ! j))
                      [0..<?n]\<rparr>"
  have z: "shape ?z = (nz, ny, nx)" "length (flat ?z) = ?n"
    by (simp_all add: zeros_def size_of_def)
  have "\<forall>i\<in>set [0..<N]. i < length ?fs \<and> shape (DoseData (?fs ! i)) = shape ?z
          \<and> length (flat (DoseData (?fs ! i))) = length (flat ?z)"
    using assms(2,3) by (auto simp: z wf_ndarray_def size_of_def)
  from accumulate_loop_sum [OF this]
  have l: "accumulate_loop [0..<N] ?z w = (Inr ?S, w\<lparr>trace := trace w @ map GetDoseData [0..<N]\<rparr>)"
    by (simp only: z)
  have a: "accumulate (nx, ny, nz) (int N) w =
        (Inr (?S, divide_by ?S (of_int (int N))), w\<lparr>trace := trace w @ map GetDoseData [0..<N]\<rparr>)"
    by (simp add: accumulate_def l del: upt_Suc)
  have s: "flat ?S ! j = (\<Sum>i<N. flat (DoseData (?fs ! i)) ! j)" if "j < ?n" for j
  proof -
    have "flat ?z ! j = 0"
      using that by (simp add: zeros_def size_of_def)
    moreover have "(\<Sum>i\<leftarrow>[0..<N]. flat (DoseData (?fs ! i)) ! j)
        = (\<Sum>i<N. flat (DoseData (?fs ! i)) ! j)"
      by (simp add: interv_sum_list_conv_sum_set_nat atLeast0LessThan)
    ultimately show ?thesis
      using that by simp
  qed
  have m: "flat (divide_by ?S (of_int (int N))) ! j = flat ?S ! j / real N" if "j < ?n" for j
    using that by (simp add: divide_by_def)
  have "shape ?S = (nz, ny, nx)" "shape (divide_by ?S (of_int (int N))) = (nz, ny, nx)"
    "length (flat ?S) = ?n" "length (flat (divide_by ?S (of_int (int N)))) = ?n"
    by (simp_all add: divide_by_def)
  with a s m show ?thesis
    by blast
qed

text \<open>
  Five constant grids of 1000 cGy: the sum is 5000 cGy and the mean 1000 cGy.
\<close>

theorem accumulate_sum_and_mean_witness:
  "accumulate (1, 1, 1) 5 (example_world example_constant_fractions) =
     (Inr (\<lparr>shape = (1, 1, 1), flat = [5000]\<rparr>, \<lparr>shape = (1, 1, 1), flat = [1000]\<rparr>),
      (example_world example_constant_fractions)\<lparr>trace := map GetDoseData [0..<5]\<rparr>)
   \<and> (\<Sum>i<5. flat (DoseData (example_constant_fractions ! i)) ! 0) = 5000"
proof -
  let ?w = "example_world example_constant_fractions"
  have fs: "TreatmentFractions (self ?w) = example_constant_fractions"
    by (simp add: example_world_def)
  have h1: "(0::nat) < 5" by simp
  have l: "length example_constant_fractions = 5"
    by (simp add: example_constant_fractions_def)
  have h2: "5 \<le> length (TreatmentFractions (self ?w))"
    unfolding fs by (simp add: l)
  have "\<forall>f\<in>set example_constant_fractions. shape (DoseData f) = (1, 1, 1) \<and> wf_ndarray (DoseData f)"
    by (simp add: example_constant_fractions_def voxel_fraction_def wf_ndarray_def size_of_def)
  then have h3: "\<forall>i<5. shape (DoseData (TreatmentFractions (self ?w) ! i)) = (1, 1, 1)
               \<and> wf_ndarray (DoseData (TreatmentFractions (self ?w) ! i))"
    unfolding fs by (simp add: all_set_conv_all_nth l)
  from accumulate_sum_and_mean [OF h1 h2 h3] obtain summed_dose mean_dose where
    a: "accumulate (1, 1, 1) (int 5) ?w =
        (Inr (summed_dose, mean_dose), ?w\<lparr>trace := trace ?w @ map GetDoseData [0..<5]\<rparr>)"
    and s: "\<forall>j<1 * 1 * 1.
          flat summed_dose ! j = (\<Sum>i<5. flat (DoseData (TreatmentFractions (self ?w) ! i)) ! j)
          \<and> flat mean_dose ! j = flat summed_dose ! j / real 5"
    by (elim exE conjE) (rule that; assumption)
  have v: "fst (accumulate (1, 1, 1) 5 ?w)
      = Inr (\<lparr>shape = (1, 1, 1), flat = [5000]\<rparr>, \<lparr>shape = (1, 1, 1), flat = [1000]\<rparr>)"
    by code_simp
  from a v have sm: "summed_dose = \<lparr>shape = (1, 1, 1), flat = [5000]\<rparr>"
    "mean_dose = \<lparr>shape = (1, 1, 1), flat = [1000]\<rparr>"
    by simp_all
  from s have "flat summed_dose ! 0 = (\<Sum>i<5. flat (DoseData (example_constant_fractions ! i)) ! 0)"
    by (simp add: fs)
  with a sm show ?thesis
    by (simp add: example_world_def)
qed

text \<open>
  The claim C7 as stated fails in both halves. Five delivered fractions, the first with a grid
  of shape \<open>(1, 1, 2)\<close> and the others with grids of shape \<open>(1, 1, 1)\<close>, are summed without an
  error, the single value of each smaller grid repeated, and the evaluation runs to its
  plots. And with no index at all, one weight is one too many and still no error is raised.
\<close>

theorem broadcast_accumulate_counterexample:
  "fst (accumulate (2, 1, 1) 5 (example_world example_broadcast_fractions))
     = Inr (\<lparr>shape = (1, 1, 2), flat = [2500, 2400]\<rparr>, \<lparr>shape = (1, 1, 2), flat = [500, 480]\<rparr>)
   \<and> shape (DoseData (example_broadcast_fractions ! 0)) = (1, 1, 2)
   \<and> shape (DoseData (example_broadcast_fractions ! 1)) = (1, 1, 1)
   \<and> fst (evaluate_rectal_air 10 5 (example_world example_broadcast_fractions))
       = Inr \<lparr>decision = Proceed,
              current_metrics = Some \<lparr>v_dose_percent = 0, v_volume_cc = 0\<rparr>,
              CG_v6000 = [0, 0, 0, 0, 100], CG_v6200 = [0, 0, 0, 0, 0]\<rparr>
   \<and> compute_metrics example_roi_dose [] [1] 0.5 6000 6200
       = Inr \<lparr>v_dose_percent = 0, v_volume_cc = 0\<rparr>"
  by code_simp

text \<open>
  Claim C7, as amended. The accumulation raises \<^verbatim>\<open>ValueError\<close>, and returns no array, when
  some fraction grid has an axis whose length is neither that of the accumulated grid nor 1.
  The metrics raise \<^verbatim>\<open>IndexError\<close>, and return no pair, when there is at least one index
  and there are not as many weights as indices.
\<close>

theorem shape_mismatch_raises:
  "(N \<le> length (TreatmentFractions (self w))
      \<and> (\<exists>i<N. \<not> expandable (shape (DoseData (TreatmentFractions (self w) ! i))) (nz, ny, nx))
      \<longrightarrow> fst (accumulate (nx, ny, nz) (int N) w) = Inl ValueError)
   \<and> (roi_indices \<noteq> [] \<and> length roi_indices \<noteq> length roi_weights
      \<longrightarrow> compute_metrics dose_grid roi_indices roi_weights voxel_volume_cc
            dose_threshold_pct dose_threshold_vol = Inl IndexError)"
proof (intro conjI impI)
  assume h: "N \<le> length (TreatmentFractions (self w))
      \<and> (\<exists>i<N. \<not> expandable (shape (DoseData (TreatmentFractions (self w) ! i))) (nz, ny, nx))"
  let ?z = "zeros (nz, ny, nx)"
  have "\<forall>i\<in>set [0..<N]. i < length (TreatmentFractions (self w))"
    using h by auto
  moreover have "\<exists>i\<in>set [0..<N].
      \<not> expandable (shape (DoseData (TreatmentFractions (self w) ! i))) (shape ?z)"
    using h by (auto simp: zeros_def)
  ultimately have "fst (accumulate_loop [0..<N] ?z w) = Inl ValueError"
    by (rule accumulate_loop_mismatch)
  then show "fst (accumulate (nx, ny, nz) (int N) w) = Inl ValueError"
    by (cases "accumulate_loop [0..<N] ?z w") (simp add: accumulate_def del: upt_Suc)
next
  assume "roi_indices \<noteq> [] \<and> length roi_indices \<noteq> length roi_weights"
  then show "compute_metrics dose_grid roi_indices roi_weights voxel_volume_cc
            dose_threshold_pct dose_threshold_vol = Inl IndexError"
    by (simp add: compute_metrics_eq)
qed

text \<open>
  A fifth grid of three voxels cannot be added to the sum of four grids of two voxels, and
  one index with no weight cannot be evaluated.
\<close>

theorem shape_mismatch_raises_witness:
  "fst (accumulate (2, 1, 1) 5 (example_world example_mismatch_fractions)) = Inl ValueError
   \<and> compute_metrics example_roi_dose [0] [] 0.5 6000 6200 = Inl IndexError"
proof -
  let ?w = "example_world example_mismatch_fractions"
  have fs: "TreatmentFractions (self ?w) = example_mismatch_fractions"
    by (simp add: example_world_def)
  have "\<not> expandable (shape (DoseData (example_mismatch_fractions ! 4))) (1, 1, 2)"
    by (simp add: example_mismatch_fractions_def voxel_fraction_def expandable_def)
  then have "\<exists>i<5. \<not> expandable (shape (DoseData (TreatmentFractions (self ?w) ! i))) (1, 1, 2)"
    unfolding fs by (intro exI [of _ 4]) simp
  moreover have "5 \<le> length (TreatmentFractions (self ?w))"
    unfolding fs by (simp add: example_mismatch_fractions_def)
  moreover have "[0::int] \<noteq> [] \<and> length [0::int] \<noteq> length ([]::real list)"
    by simp
  ultimately show ?thesis
    using shape_mismatch_raises [of 5 ?w 1 1 2 "[0]" "[]" example_roi_dose "0.5" 6000 6200]
    by simp
qed



end
